theory Spec2Isabelle
  imports Complex_Main "HOL-Library.Char_ord" "HOL-Library.List_Lexorder" "HOL-Library.Multiset"
begin

section \<open>Data model of dataset.py\<close>

text \<open>
  A sample is the one-dimensional tensor that \<open>torch.tensor\<close> builds from one pickled file.
  The pickles hold integer sequences, so it is an integer tensor: its element type is
  whatever the pickled object dictates (a Python list gives \<open>int64\<close>, a byte array \<open>uint8\<close>),
  and it matters, because a tensor allocated from it inherits that type. Storing a value
  that does not fit the element type wraps around; filling a new tensor with such a value
  is refused. Float tensors are outside this model.
\<close>

datatype dtype = UInt8 | Int8 | Int16 | Int32 | Int64

fun dtype_bits :: "dtype \<Rightarrow> nat" where
  "dtype_bits UInt8 = 8"
| "dtype_bits Int8 = 8"
| "dtype_bits Int16 = 16"
| "dtype_bits Int32 = 32"
| "dtype_bits Int64 = 64"

fun dtype_min :: "dtype \<Rightarrow> int" where
  "dtype_min UInt8 = 0"
| "dtype_min dt = - (2 ^ (dtype_bits dt - 1))"

fun dtype_max :: "dtype \<Rightarrow> int" where
  "dtype_max UInt8 = 2 ^ 8 - 1"
| "dtype_max dt = 2 ^ (dtype_bits dt - 1) - 1"

definition fits :: "dtype \<Rightarrow> int \<Rightarrow> bool" where
  "fits dt v \<longleftrightarrow> dtype_min dt \<le> v \<and> v \<le> dtype_max dt"

definition cast_to :: "dtype \<Rightarrow> int \<Rightarrow> int" where
  "cast_to dt v = (v - dtype_min dt) mod 2 ^ dtype_bits dt + dtype_min dt"

record tensor =
  t_dtype :: dtype
  t_data :: "int list"

record tensor2d =
  b_dtype :: dtype
  b_rows :: "int list list"

type_synonym sample = tensor

text \<open>
  A label is the Python float 0.0 or 1.0. The split fractions are untyped in the source:
  the callers pass floats, and \<open>make_loaders\<close> itself passes the integer literals 1 and 0,
  so a size keeps its Python type. A float is idealised as the rational its literal
  denotes, with exact arithmetic.
\<close>

datatype pynum = PyInt int | PyFloat rat

fun num_val :: "pynum \<Rightarrow> rat" where
  "num_val (PyInt k) = of_int k"
| "num_val (PyFloat f) = f"

fun py_add :: "pynum \<Rightarrow> pynum \<Rightarrow> pynum" where
  "py_add (PyInt a) (PyInt b) = PyInt (a + b)"
| "py_add x y = PyFloat (num_val x + num_val y)"

text \<open>
  Every exception of the source is a value. \<open>ValueError_fractions\<close> is the \<open>ValueError\<close>
  raised by \<open>make_loaders\<close>, carrying the sum shown in its message; \<open>SplitError\<close> wraps
  whatever the library's \<open>train_test_split\<close> raises and \<open>LoaderError\<close> whatever its
  \<open>DataLoader\<close> constructor raises; \<open>OSError\<close> is a failed \<open>os.listdir\<close>, \<open>DataError\<close> a
  failed \<open>open\<close>, \<open>pickle.load\<close> or \<open>torch.tensor\<close>; \<open>RuntimeError\<close> is the refusal of
  \<open>new_full\<close> to fill a tensor with a value its element type cannot hold.
\<close>

datatype 'e error =
    ValueError_fractions pynum
  | ValueError_max_empty
  | IndexError
  | RuntimeError
  | OSError string
  | DataError string
  | SplitError 'e
  | LoaderError 'e

record filesystem =
  listdir :: "string \<Rightarrow> string list option"
  pickle_load :: "string \<Rightarrow> sample option"

record MalwareDataset =
  benign_dir :: string
  malware_dir :: string
  benign_files :: "string list"
  malware_files :: "string list"

text \<open>Python's list indexing: a negative index counts from the end, anything else raises.\<close>

definition py_index :: "'a list \<Rightarrow> int \<Rightarrow> 'a option" where
  "py_index xs i =
     (if 0 \<le> i \<and> i < int (length xs) then Some (xs ! nat i)
      else if - int (length xs) \<le> i \<and> i < 0 then Some (xs ! nat (int (length xs) + i))
      else None)"

text \<open>\<open>os.path.join\<close> of two components (posixpath).\<close>

definition path_join :: "string \<Rightarrow> string \<Rightarrow> string" where
  "path_join a b =
     (if b \<noteq> [] \<and> hd b = CHR ''/'' then b
      else if a = [] \<or> last a = CHR ''/'' then a @ b
      else a @ ''/'' @ b)"

subsection \<open>MalwareDataset\<close>

definition getitem :: "filesystem \<Rightarrow> MalwareDataset \<Rightarrow> int \<Rightarrow> 'e error + (sample \<times> rat)" where
  "getitem fs ds index =
     (case (case py_index (benign_files ds) index of
              Some f \<Rightarrow> Inr (path_join (benign_dir ds) f, 0)
            | None \<Rightarrow>
               (case py_index (malware_files ds) (index - int (length (benign_files ds))) of
                  Some f \<Rightarrow> Inr (path_join (malware_dir ds) f, 1)
                | None \<Rightarrow> Inl IndexError)) of
        Inl e \<Rightarrow> Inl e
      | Inr (file_dir, label) \<Rightarrow>
         (case pickle_load fs file_dir of
            None \<Rightarrow> Inl (DataError file_dir)
          | Some file \<Rightarrow> Inr (file, label)))"

definition len :: "MalwareDataset \<Rightarrow> nat" where
  "len ds = length (benign_files ds) + length (malware_files ds)"

subsection \<open>Collation\<close>

text \<open>
  \<open>new_full\<close> is \<open>sequences[0].new_full\<close>: the batch takes the element type of the first
  sample and cannot be filled with a value that type does not hold. \<open>assign_row\<close> is the
  slice assignment \<open>out_tensor[i, :n] = src\<close>, which converts the source to the element type
  of the batch; \<open>pad_loop\<close> is the \<open>for i, tensor in enumerate\<close> loop.
\<close>

definition new_full :: "tensor \<Rightarrow> nat \<Rightarrow> nat \<Rightarrow> int \<Rightarrow> 'e error + tensor2d" where
  "new_full proto batch_size max_len padding_value =
     (if fits (t_dtype proto) padding_value
      then Inr \<lparr>b_dtype = t_dtype proto,
                b_rows = replicate batch_size (replicate max_len padding_value)\<rparr>
      else Inl RuntimeError)"

definition assign_row :: "tensor2d \<Rightarrow> nat \<Rightarrow> nat \<Rightarrow> int list \<Rightarrow> tensor2d" where
  "assign_row out_tensor i n src =
     out_tensor\<lparr>b_rows :=
       (b_rows out_tensor)[i := map (cast_to (b_dtype out_tensor)) src
                                  @ drop n (b_rows out_tensor ! i)]\<rparr>"

fun pad_loop :: "nat \<Rightarrow> nat \<Rightarrow> tensor list \<Rightarrow> tensor2d \<Rightarrow> tensor2d" where
  "pad_loop max_len i [] out_tensor = out_tensor"
| "pad_loop max_len i (tensor # rest) out_tensor =
     (let l = length (t_data tensor) in
      pad_loop max_len (Suc i) rest
        (if max_len > l
         then assign_row out_tensor i l (t_data tensor)
         else assign_row out_tensor i max_len (take max_len (t_data tensor))))"

definition pad_sequence :: "tensor list \<Rightarrow> nat option \<Rightarrow> int \<Rightarrow> 'e error + tensor2d" where
  "pad_sequence sequences max_len padding_value =
     (let batch_size = length sequences in
      case (case max_len of
              Some m \<Rightarrow> Inr m
            | None \<Rightarrow>
               (if sequences = [] then Inl ValueError_max_empty
                else Inr (fold max (map (\<lambda>s. length (t_data s)) (tl sequences))
                            (length (t_data (hd sequences)))))) of
        Inl e \<Rightarrow> Inl e
      | Inr m \<Rightarrow>
         (if sequences = [] then Inl IndexError
          else case new_full (sequences ! 0) batch_size m padding_value of
                 Inl e \<Rightarrow> Inl e
               | Inr out_tensor \<Rightarrow> Inr (pad_loop m 0 sequences out_tensor)))"

definition collate_fn :: "(sample \<times> rat) list \<Rightarrow> 'e error + (tensor2d \<times> rat list)" where
  "collate_fn batch =
     (case pad_sequence (map fst batch) (Some 4096) 256 of
        Inl e \<Rightarrow> Inl e
      | Inr xs \<Rightarrow> Inr (xs, map snd batch))"

subsection \<open>Effects: the ambient random state and a trace of the work done\<close>

text \<open>
  \<open>train_test_split\<close> is called without a \<open>random_state\<close>, so a shuffled split draws from
  the process-wide random generator. That generator is the component \<open>rng\<close> of the state
  every operation passes on; \<open>trace\<close> records each directory listing and each call of the
  split primitive, in order. An exception leaves the state as it was when it was raised.
\<close>

datatype event = ListDir string | SplitCall "int list" pynum bool

record 'g world =
  rng :: 'g
  trace :: "event list"

type_synonym ('a, 'g, 'e) action = "'g world \<Rightarrow> ('e error + 'a) \<times> 'g world"

definition return_val :: "'a \<Rightarrow> ('a, 'g, 'e) action" where
  "return_val x w = (Inr x, w)"

definition raise_exc :: "'e error \<Rightarrow> ('a, 'g, 'e) action" where
  "raise_exc e w = (Inl e, w)"

definition then_do :: "('a, 'g, 'e) action \<Rightarrow> ('a \<Rightarrow> ('b, 'g, 'e) action) \<Rightarrow> ('b, 'g, 'e) action" where
  "then_do m f w = (case m w of (Inl e, w') \<Rightarrow> (Inl e, w') | (Inr x, w') \<Rightarrow> f x w')"

definition log_event :: "event \<Rightarrow> 'g world \<Rightarrow> 'g world" where
  "log_event ev w = w\<lparr>trace := trace w @ [ev]\<rparr>"

definition os_listdir :: "filesystem \<Rightarrow> string \<Rightarrow> (string list, 'g, 'e) action" where
  "os_listdir fs d w =
     (case listdir fs d of
        None \<Rightarrow> (Inl (OSError d), log_event (ListDir d) w)
      | Some names \<Rightarrow> (Inr names, log_event (ListDir d) w))"

definition MalwareDataset_init :: "filesystem \<Rightarrow> string \<Rightarrow> string \<Rightarrow> (MalwareDataset, 'g, 'e) action" where
  "MalwareDataset_init fs bdir mdir =
     then_do (os_listdir fs bdir) (\<lambda>bnames.
     then_do (os_listdir fs mdir) (\<lambda>mnames.
     return_val \<lparr>benign_dir = bdir, malware_dir = mdir,
                 benign_files = sort bnames, malware_files = sort mnames\<rparr>))"

subsection \<open>The splitter\<close>

text \<open>
  The library function \<open>sklearn.model_selection.train_test_split\<close> is not part of the
  repository. It is a parameter \<open>tts\<close> of everything below: given the random state, the
  index sequence, the held-out size and the shuffle flag it either raises or returns the
  kept part, the held-out part and the new random state. Given a \<open>range\<close> or a list it
  returns Python lists, so the \<open>+\<close> of \<open>make_idx\<close> is list concatenation. The definition
  \<open>train_test_split\<close> is one call of the primitive in the ambient state: it reads the
  random state, records the call and stores the random state the primitive leaves.
\<close>

type_synonym ('g, 'e) splitter =
  "'g \<Rightarrow> int list \<Rightarrow> pynum \<Rightarrow> bool \<Rightarrow> 'e + ((int list \<times> int list) \<times> 'g)"

definition train_test_split ::
  "('g, 'e) splitter \<Rightarrow> int list \<Rightarrow> pynum \<Rightarrow> bool \<Rightarrow> (int list \<times> int list, 'g, 'e) action" where
  "train_test_split tts idx test_size shuffle w =
     (case tts (rng w) idx test_size shuffle of
        Inl e \<Rightarrow> (Inl (SplitError e), log_event (SplitCall idx test_size shuffle) w)
      | Inr (parts, g') \<Rightarrow> (Inr parts, log_event (SplitCall idx test_size shuffle) (w\<lparr>rng := g'\<rparr>)))"

definition train_val_test_split ::
  "('g, 'e) splitter \<Rightarrow> int list \<Rightarrow> pynum \<Rightarrow> pynum \<Rightarrow> bool
     \<Rightarrow> (int list \<times> int list \<times> int list, 'g, 'e) action" where
  "train_val_test_split tts idx val_size test_size shuffle =
     then_do (train_test_split tts idx test_size shuffle) (\<lambda>(tv_idx, test_idx).
     then_do (train_test_split tts tv_idx val_size shuffle) (\<lambda>(train_idx, val_idx).
     return_val (train_idx, val_idx, test_idx)))"

definition py_range :: "nat \<Rightarrow> nat \<Rightarrow> int list" where
  "py_range a b = map int [a..<b]"

definition make_idx ::
  "('g, 'e) splitter \<Rightarrow> MalwareDataset \<Rightarrow> pynum \<Rightarrow> pynum
     \<Rightarrow> (int list \<times> int list \<times> int list, 'g, 'e) action" where
  "make_idx tts dataset val_size test_size =
     (let num_benign = length (benign_files dataset);
          num_malware = length (malware_files dataset);
          benign_idx = py_range 0 num_benign;
          malware_idx = py_range num_benign (num_benign + num_malware)
      in
      then_do (train_val_test_split tts benign_idx val_size test_size True)
        (\<lambda>(benign_train_idx, benign_val_idx, benign_test_idx).
      then_do (train_val_test_split tts malware_idx val_size test_size True)
        (\<lambda>(malware_train_idx, malware_val_idx, malware_test_idx).
      return_val (benign_train_idx @ malware_train_idx,
                  benign_val_idx @ malware_val_idx,
                  benign_test_idx @ malware_test_idx))))"

subsection \<open>The loaders\<close>

text \<open>
  A \<open>Subset\<close> is a dataset with an index list, a \<open>DataLoader\<close> is what \<open>make_loader\<close>
  hands to the library: the subset, the batch size and the shuffle flag (the collate
  function is always \<open>collate_fn\<close>). The library's constructor validates its arguments and
  may refuse them; what it refuses is a parameter \<open>chk\<close>, which names the error or accepts.
\<close>

record Subset =
  sub_dataset :: MalwareDataset
  sub_indices :: "int list"

record DataLoader =
  dl_dataset :: Subset
  dl_batch_size :: int
  dl_shuffle :: bool

type_synonym 'e loader_check = "Subset \<Rightarrow> int \<Rightarrow> bool \<Rightarrow> 'e option"

definition make_loader ::
  "'e loader_check \<Rightarrow> Subset \<Rightarrow> int \<Rightarrow> bool \<Rightarrow> (DataLoader, 'g, 'e) action" where
  "make_loader chk dataset batch_size shuffle =
     (case chk dataset batch_size shuffle of
        Some e \<Rightarrow> raise_exc (LoaderError e)
      | None \<Rightarrow>
         return_val \<lparr>dl_dataset = dataset, dl_batch_size = batch_size, dl_shuffle = shuffle\<rparr>)"

definition testing_benign_dir :: string where
  "testing_benign_dir = ''/home/kali/deep-malware-detection/raw/test/benign''"

definition testing_malware_dir :: string where
  "testing_malware_dir = ''/home/kali/deep-malware-detection/raw/test/malware''"

definition make_loaders ::
  "filesystem \<Rightarrow> ('g, 'e) splitter \<Rightarrow> 'e loader_check \<Rightarrow> string \<Rightarrow> string \<Rightarrow> int
     \<Rightarrow> pynum \<Rightarrow> pynum \<Rightarrow> (DataLoader \<times> DataLoader \<times> DataLoader, 'g, 'e) action" where
  "make_loaders fs tts chk bdir mdir batch_size val_size test_size =
     (let non_train_size = py_add val_size test_size in
      if num_val non_train_size \<ge> 1 then raise_exc (ValueError_fractions non_train_size)
      else
        then_do (MalwareDataset_init fs bdir mdir) (\<lambda>dataset.
        then_do (make_idx tts dataset val_size test_size) (\<lambda>(train_idx, val_idx, test_idx).
        let train_dataset = \<lparr>sub_dataset = dataset, sub_indices = train_idx\<rparr>;
            test_dataset = \<lparr>sub_dataset = dataset, sub_indices = test_idx\<rparr>
        in
        then_do (make_loader chk train_dataset batch_size True) (\<lambda>train_loader.
        then_do (make_loader chk test_dataset batch_size False) (\<lambda>test_loader.
        then_do (MalwareDataset_init fs testing_benign_dir testing_malware_dir) (\<lambda>testing.
        then_do (make_idx tts testing (PyInt 1) (PyInt 0)) (\<lambda>(train1_idx, val1_idx, test1_idx).
        let val_dataset = \<lparr>sub_dataset = testing, sub_indices = val_idx\<rparr> in
        then_do (make_loader chk val_dataset batch_size False) (\<lambda>val_loader.
        return_val (train_loader, val_loader, test_loader)))))))))"

subsection \<open>What the theorems ask of the split primitive\<close>

text \<open>
  The primitive is a black box that returns two parts of its input. \<open>split_partitions\<close>
  says that nothing is lost, invented or duplicated; \<open>split_holds_out\<close> is the size rule
  of the library for a fractional size (the held-out part has the fraction, rounded up);
  \<open>split_unshuffled_fixed\<close> says that an unshuffled split does not consult the random
  state.
\<close>

definition split_partitions :: "('g, 'e) splitter \<Rightarrow> bool" where
  "split_partitions tts \<longleftrightarrow>
     (\<forall>g idx sz sh a b g'. tts g idx sz sh = Inr ((a, b), g') \<longrightarrow> mset a + mset b = mset idx)"

definition split_holds_out :: "('g, 'e) splitter \<Rightarrow> bool" where
  "split_holds_out tts \<longleftrightarrow>
     (\<forall>g idx f sh a b g'. tts g idx (PyFloat f) sh = Inr ((a, b), g') \<longrightarrow>
        length b = nat \<lceil>f * of_nat (length idx)\<rceil>)"


subsection \<open>An instance of the split primitive and of the loader check\<close>

text \<open>
  An executable primitive in the style of the library, used to run the code on concrete
  inputs: an integer size is a count, a float size a fraction of the input rounded up, the
  kept part must not be empty. Unshuffled, the held-out part is the tail of the input;
  shuffled, the input is first permuted. The random state is a counter and the permutation
  a rotation by it: a stand-in for the library's generator, which is not modelled.
  \<open>torch_loader_check\<close> is a loader check in the same spirit: a shuffling loader needs a
  non-empty subset and every loader a positive batch size.
\<close>

datatype lib_error = InvalidTestSize | EmptyTrainSet | NoSamples | BadBatchSize

fun sk_n_test :: "nat \<Rightarrow> pynum \<Rightarrow> lib_error + nat" where
  "sk_n_test n (PyInt k) = (if k < 0 \<or> int n \<le> k then Inl InvalidTestSize else Inr (nat k))"
| "sk_n_test n (PyFloat f) =
     (if f < 0 \<or> 1 \<le> f then Inl InvalidTestSize else Inr (nat \<lceil>f * of_nat n\<rceil>))"

definition sk_split :: "(nat, lib_error) splitter" where
  "sk_split g idx test_size shuffle =
     (let n = length idx in
      case sk_n_test n test_size of
        Inl e \<Rightarrow> Inl e
      | Inr n_test \<Rightarrow>
         (let n_train = n - n_test in
          if n_train = 0 then Inl EmptyTrainSet
          else if shuffle then
            (let p = rotate (Suc g) idx in Inr ((drop n_test p, take n_test p), Suc g))
          else Inr ((take n_train idx, drop n_train idx), g)))"

definition torch_loader_check :: "lib_error loader_check" where
  "torch_loader_check dataset batch_size shuffle =
     (if shuffle \<and> sub_indices dataset = [] then Some NoSamples
      else if batch_size \<le> 0 then Some BadBatchSize
      else None)"

subsection \<open>Concrete inputs\<close>

text \<open>
  Small file systems, datasets, batches and states on which the operations are run below.
  In \<open>loaders_fs\<close> the two directories named in \<open>make_loaders\<close> exist and hold two files
  each, next to a primary dataset of four benign and four malware files.
\<close>

definition int64_tensor :: "int list \<Rightarrow> tensor" where
  "int64_tensor vs = \<lparr>t_dtype = Int64, t_data = vs\<rparr>"

definition uint8_tensor :: "int list \<Rightarrow> tensor" where
  "uint8_tensor vs = \<lparr>t_dtype = UInt8, t_data = vs\<rparr>"

definition demo_batch :: "(sample \<times> rat) list" where
  "demo_batch = [(int64_tensor [1, 2, 3, 4, 5, 6, 7, 8, 9, 10], 0), (uint8_tensor [255, 0], 1)]"

definition long_batch :: "(sample \<times> rat) list" where
  "long_batch = [(int64_tensor [7, 8, 9], 0), (uint8_tensor (replicate 5000 255), 1)]"

definition uint8_batch :: "(sample \<times> rat) list" where
  "uint8_batch = [(uint8_tensor [77, 90, 144], 1)]"

definition uint8_long_batch :: "(sample \<times> rat) list" where
  "uint8_long_batch = [(uint8_tensor (replicate 5000 255), 1)]"

definition int8_batch :: "(sample \<times> rat) list" where
  "int8_batch = [(\<lparr>t_dtype = Int8, t_data = [1, 2]\<rparr>, 0), (int64_tensor [3], 0)]"

definition demo_fs :: filesystem where
  "demo_fs = \<lparr>listdir = [''b'' \<mapsto> [''b1'', ''b0''], ''m'' \<mapsto> [''m0'']],
              pickle_load = [''b/b0'' \<mapsto> int64_tensor [77, 90],
                             ''b/b1'' \<mapsto> int64_tensor [1, 2, 3],
                             ''m/m0'' \<mapsto> int64_tensor [9]]\<rparr>"

definition wide_fs :: filesystem where
  "wide_fs = \<lparr>listdir = [''b'' \<mapsto> [''b0''], ''m'' \<mapsto> [''m1'', ''m0'', ''m2'']],
              pickle_load = [''b/b0'' \<mapsto> int64_tensor [77, 90],
                             ''m/m0'' \<mapsto> int64_tensor [9],
                             ''m/m1'' \<mapsto> int64_tensor [4, 4],
                             ''m/m2'' \<mapsto> int64_tensor [5]]\<rparr>"

definition wide_ds :: MalwareDataset where
  "wide_ds = \<lparr>benign_dir = ''b'', malware_dir = ''m'',
              benign_files = [''b0''], malware_files = [''m0'', ''m1'', ''m2'']\<rparr>"

definition demo_ds :: MalwareDataset where
  "demo_ds = \<lparr>benign_dir = ''b'', malware_dir = ''m'',
              benign_files = [''b0'', ''b1''], malware_files = [''m0'']\<rparr>"

definition world0 :: "nat world" where
  "world0 = \<lparr>rng = 0, trace = []\<rparr>"



definition split_ds :: MalwareDataset where
  "split_ds = \<lparr>benign_dir = ''b'', malware_dir = ''m'',
               benign_files = [''b0'', ''b1'', ''b2'', ''b3''],
               malware_files = [''m0'', ''m1'', ''m2'', ''m3'']\<rparr>"

definition numbered_files :: "nat \<Rightarrow> string list" where
  "numbered_files n = map (\<lambda>k. replicate (Suc k) CHR ''a'') [0..<n]"

definition ds100 :: MalwareDataset where
  "ds100 = \<lparr>benign_dir = ''b'', malware_dir = ''m'',
            benign_files = numbered_files 100, malware_files = numbered_files 100\<rparr>"

definition testing_ds :: MalwareDataset where
  "testing_ds = \<lparr>benign_dir = testing_benign_dir, malware_dir = testing_malware_dir,
                 benign_files = [''x0'', ''x1''], malware_files = [''y0'', ''y1'']\<rparr>"

definition loaders_fs :: filesystem where
  "loaders_fs =
     \<lparr>listdir = [''b'' \<mapsto> [''b3'', ''b1'', ''b0'', ''b2''],
                  ''m'' \<mapsto> [''m0'', ''m1'', ''m2'', ''m3''],
                  testing_benign_dir \<mapsto> [''x0'', ''x1''],
                  testing_malware_dir \<mapsto> [''y0'', ''y1'']],
      pickle_load = Map.empty\<rparr>"

subsection \<open>Two properties of actions\<close>



section \<open>The dataset\<close>

lemma py_index_nonneg: "0 \<le> i \<Longrightarrow> i < int (length xs) \<Longrightarrow> py_index xs i = Some (xs ! nat i)"
  by (simp add: py_index_def)

lemma py_index_above: "int (length xs) \<le> i \<Longrightarrow> py_index xs i = None"
  by (simp add: py_index_def)

lemma py_index_from_end:
  "- int (length xs) \<le> i \<Longrightarrow> i < 0 \<Longrightarrow> py_index xs i = Some (xs ! nat (int (length xs) + i))"
  by (simp add: py_index_def)

text \<open>
  Claim C2. A dataset with \<open>B\<close> benign and \<open>M\<close> malware files has length \<open>B + M\<close>;
  an index \<open>0 \<le> i < B\<close> yields the sample read from the \<open>i\<close>-th benign file with label
  0.0, an index \<open>B \<le> i < B + M\<close> the sample read from the \<open>(i - B)\<close>-th malware file with
  label 1.0. Reading the file can fail, and then the failure is what comes back.
\<close>

theorem getitem_in_range:
  "len ds = length (benign_files ds) + length (malware_files ds)
   \<and> (\<forall>i. 0 \<le> i \<and> i < int (length (benign_files ds)) \<longrightarrow>
        (getitem fs ds i :: 'e error + (sample \<times> rat)) =
          (let file_dir = path_join (benign_dir ds) (benign_files ds ! nat i) in
           case pickle_load fs file_dir of
             None \<Rightarrow> Inl (DataError file_dir)
           | Some file \<Rightarrow> Inr (file, 0)))
   \<and> (\<forall>i. int (length (benign_files ds)) \<le> i \<and> i < int (len ds) \<longrightarrow>
        (getitem fs ds i :: 'e error + (sample \<times> rat)) =
          (let file_dir = path_join (malware_dir ds)
                            (malware_files ds ! nat (i - int (length (benign_files ds)))) in
           case pickle_load fs file_dir of
             None \<Rightarrow> Inl (DataError file_dir)
           | Some file \<Rightarrow> Inr (file, 1)))"
proof (intro conjI allI impI)
  show "len ds = length (benign_files ds) + length (malware_files ds)"
    by (simp add: len_def)
next
  fix i assume "0 \<le> i \<and> i < int (length (benign_files ds))"
  then show "(getitem fs ds i :: 'e error + (sample \<times> rat)) =
          (let file_dir = path_join (benign_dir ds) (benign_files ds ! nat i) in
           case pickle_load fs file_dir of
             None \<Rightarrow> Inl (DataError file_dir)
           | Some file \<Rightarrow> Inr (file, 0))"
    by (simp add: getitem_def py_index_nonneg Let_def)
next
  fix i assume a: "int (length (benign_files ds)) \<le> i \<and> i < int (len ds)"
  then have 1: "py_index (benign_files ds) i = None" by (simp add: py_index_above)
  from a have 2: "py_index (malware_files ds) (i - int (length (benign_files ds)))
            = Some (malware_files ds ! nat (i - int (length (benign_files ds))))"
    by (intro py_index_nonneg) (simp_all add: len_def)
  show "(getitem fs ds i :: 'e error + (sample \<times> rat)) =
          (let file_dir = path_join (malware_dir ds)
                            (malware_files ds ! nat (i - int (length (benign_files ds)))) in
           case pickle_load fs file_dir of
             None \<Rightarrow> Inl (DataError file_dir)
           | Some file \<Rightarrow> Inr (file, 1))"
    by (simp add: getitem_def 1 2 Let_def)
qed

theorem getitem_in_range_witness:
  "len demo_ds = 3
   \<and> (getitem demo_fs demo_ds 1 :: unit error + (sample \<times> rat)) = Inr (int64_tensor [1, 2, 3], 0)
   \<and> (getitem demo_fs demo_ds 2 :: unit error + (sample \<times> rat)) = Inr (int64_tensor [9], 1)"
proof -
  have b: "(0::int) \<le> 1 \<and> 1 < int (length (benign_files demo_ds))"
    by (simp add: demo_ds_def)
  have m: "int (length (benign_files demo_ds)) \<le> 2 \<and> 2 < int (len demo_ds)"
    by (simp add: demo_ds_def len_def)
  from getitem_in_range [of demo_ds demo_fs, where ?'e = unit] b m
  have "len demo_ds = length (benign_files demo_ds) + length (malware_files demo_ds)"
    and "(getitem demo_fs demo_ds 1 :: unit error + (sample \<times> rat)) =
          (let file_dir = path_join (benign_dir demo_ds) (benign_files demo_ds ! nat 1) in
           case pickle_load demo_fs file_dir of
             None \<Rightarrow> Inl (DataError file_dir)
           | Some file \<Rightarrow> Inr (file, 0))"
    and "(getitem demo_fs demo_ds 2 :: unit error + (sample \<times> rat)) =
          (let file_dir = path_join (malware_dir demo_ds)
                            (malware_files demo_ds ! nat (2 - int (length (benign_files demo_ds)))) in
           case pickle_load demo_fs file_dir of
             None \<Rightarrow> Inl (DataError file_dir)
           | Some file \<Rightarrow> Inr (file, 1))"
    by blast+
  then show ?thesis
    by (simp add: demo_ds_def demo_fs_def path_join_def Let_def)
qed

text \<open>
  Claim C3, as stated: every index outside \<open>[0, len)\<close>, every negative index included,
  raises \<open>IndexError\<close>. It fails at index \<open>-1\<close>: the benign list is indexed the Python
  way, so the last benign sample comes back.
\<close>

theorem getitem_negative_index_counterexample:
  "(-1 :: int) < 0
   \<and> (getitem demo_fs demo_ds (-1) :: unit error + (sample \<times> rat)) = Inr (int64_tensor [1, 2, 3], 0)"
  by (simp add: getitem_def demo_fs_def demo_ds_def py_index_def path_join_def)

text \<open>
  Claim C3, amended. \<open>IndexError\<close> is raised, and no sample returned, exactly for the
  indices \<open>i \<ge> len\<close> and for the indices below both \<open>-B\<close> and \<open>B - M\<close>. The other negative
  indices return a sample: \<open>-B \<le> i < 0\<close> addresses the benign files from the end and
  yields the sample of benign file \<open>B + i\<close> with label 0.0; \<open>B - M \<le> i < -B\<close> falls through
  to the malware files, addressed from the end at \<open>i - B\<close>, and yields the sample of malware
  file \<open>M + i - B\<close> with label 1.0.
\<close>

theorem getitem_out_of_range:
  "(int (len ds) \<le> i \<or> (i < - int (length (benign_files ds))
                          \<and> i < int (length (benign_files ds)) - int (length (malware_files ds))) \<longrightarrow>
      (getitem fs ds i :: 'e error + (sample \<times> rat)) = Inl IndexError)
   \<and> (- int (length (benign_files ds)) \<le> i \<and> i < 0 \<longrightarrow>
        (getitem fs ds i :: 'e error + (sample \<times> rat)) =
          (let file_dir = path_join (benign_dir ds)
                            (benign_files ds ! nat (int (length (benign_files ds)) + i)) in
           case pickle_load fs file_dir of
             None \<Rightarrow> Inl (DataError file_dir)
           | Some file \<Rightarrow> Inr (file, 0)))
   \<and> (int (length (benign_files ds)) - int (length (malware_files ds)) \<le> i
        \<and> i < - int (length (benign_files ds)) \<longrightarrow>
        (getitem fs ds i :: 'e error + (sample \<times> rat)) =
          (let file_dir = path_join (malware_dir ds)
                            (malware_files ds ! nat (int (length (malware_files ds))
                                                      + (i - int (length (benign_files ds))))) in
           case pickle_load fs file_dir of
             None \<Rightarrow> Inl (DataError file_dir)
           | Some file \<Rightarrow> Inr (file, 1)))
   \<and> ((getitem fs ds i :: 'e error + (sample \<times> rat)) = Inl IndexError \<longleftrightarrow>
        int (len ds) \<le> i \<or> (i < - int (length (benign_files ds))
                          \<and> i < int (length (benign_files ds)) - int (length (malware_files ds))))"
proof -
  let ?B = "int (length (benign_files ds))" and ?M = "int (length (malware_files ds))"
  have above: "(getitem fs ds i :: 'e error + (sample \<times> rat)) = Inl IndexError"
    if "int (len ds) \<le> i"
  proof -
    from that have "py_index (benign_files ds) i = None"
      by (intro py_index_above) (simp add: len_def)
    moreover from that have "py_index (malware_files ds) (i - ?B) = None"
      by (intro py_index_above) (simp add: len_def)
    ultimately show ?thesis by (simp add: getitem_def)
  qed
  have below: "(getitem fs ds i :: 'e error + (sample \<times> rat)) = Inl IndexError"
    if "i < - ?B \<and> i < ?B - ?M"
    using that by (simp add: getitem_def py_index_def)
  have benign: "(getitem fs ds i :: 'e error + (sample \<times> rat)) =
          (let file_dir = path_join (benign_dir ds) (benign_files ds ! nat (?B + i)) in
           case pickle_load fs file_dir of
             None \<Rightarrow> Inl (DataError file_dir)
           | Some file \<Rightarrow> Inr (file, 0))"
    if "- ?B \<le> i \<and> i < 0"
    using that by (simp add: getitem_def py_index_from_end Let_def)
  have malware: "(getitem fs ds i :: 'e error + (sample \<times> rat)) =
          (let file_dir = path_join (malware_dir ds) (malware_files ds ! nat (?M + (i - ?B))) in
           case pickle_load fs file_dir of
             None \<Rightarrow> Inl (DataError file_dir)
           | Some file \<Rightarrow> Inr (file, 1))"
    if "?B - ?M \<le> i \<and> i < - ?B"
  proof -
    from that have "py_index (benign_files ds) i = None" by (simp add: py_index_def)
    moreover from that have "py_index (malware_files ds) (i - ?B)
        = Some (malware_files ds ! nat (?M + (i - ?B)))"
      by (intro py_index_from_end) simp_all
    ultimately show ?thesis by (simp add: getitem_def Let_def)
  qed
  have only: "int (len ds) \<le> i \<or> (i < - ?B \<and> i < ?B - ?M)"
    if "(getitem fs ds i :: 'e error + (sample \<times> rat)) = Inl IndexError"
    using that
    by (auto simp add: getitem_def py_index_def len_def split: if_splits option.splits)
  from above below benign malware only show ?thesis by blast
qed

theorem getitem_out_of_range_witness:
  "(getitem demo_fs demo_ds 3 :: unit error + (sample \<times> rat)) = Inl IndexError
   \<and> (getitem demo_fs demo_ds (-3) :: unit error + (sample \<times> rat)) = Inl IndexError
   \<and> (getitem demo_fs demo_ds (-2) :: unit error + (sample \<times> rat)) = Inr (int64_tensor [77, 90], 0)
   \<and> (getitem wide_fs wide_ds (-2) :: unit error + (sample \<times> rat)) = Inr (int64_tensor [9], 1)"
proof -
  have a: "int (len demo_ds) \<le> 3" by (simp add: demo_ds_def len_def)
  have l: "-3 < - int (length (benign_files demo_ds))
           \<and> -3 < int (length (benign_files demo_ds)) - int (length (malware_files demo_ds))"
    by (simp add: demo_ds_def)
  have n: "- int (length (benign_files demo_ds)) \<le> -2 \<and> (-2 :: int) < 0"
    by (simp add: demo_ds_def)
  have w: "int (length (benign_files wide_ds)) - int (length (malware_files wide_ds)) \<le> -2
           \<and> -2 < - int (length (benign_files wide_ds))"
    by (simp add: wide_ds_def)
  from getitem_out_of_range [of demo_ds 3 demo_fs, where ?'e = unit] a
  have 1: "(getitem demo_fs demo_ds 3 :: unit error + (sample \<times> rat)) = Inl IndexError"
    by blast
  from getitem_out_of_range [of demo_ds "-3" demo_fs, where ?'e = unit] l
  have 2: "(getitem demo_fs demo_ds (-3) :: unit error + (sample \<times> rat)) = Inl IndexError"
    by blast
  from getitem_out_of_range [of demo_ds "-2" demo_fs, where ?'e = unit] n
  have "(getitem demo_fs demo_ds (-2) :: unit error + (sample \<times> rat)) =
          (let file_dir = path_join (benign_dir demo_ds)
                            (benign_files demo_ds ! nat (int (length (benign_files demo_ds)) + (-2))) in
           case pickle_load demo_fs file_dir of
             None \<Rightarrow> Inl (DataError file_dir)
           | Some file \<Rightarrow> Inr (file, 0))"
    by blast
  then have 3: "(getitem demo_fs demo_ds (-2) :: unit error + (sample \<times> rat))
                  = Inr (int64_tensor [77, 90], 0)"
    by (simp add: demo_ds_def demo_fs_def path_join_def Let_def)
  from getitem_out_of_range [of wide_ds "-2" wide_fs, where ?'e = unit] w
  have "(getitem wide_fs wide_ds (-2) :: unit error + (sample \<times> rat)) =
          (let file_dir = path_join (malware_dir wide_ds)
                            (malware_files wide_ds ! nat (int (length (malware_files wide_ds))
                                                      + (-2 - int (length (benign_files wide_ds))))) in
           case pickle_load wide_fs file_dir of
             None \<Rightarrow> Inl (DataError file_dir)
           | Some file \<Rightarrow> Inr (file, 1))"
    by blast
  then have 4: "(getitem wide_fs wide_ds (-2) :: unit error + (sample \<times> rat))
                  = Inr (int64_tensor [9], 1)"
    by (simp add: wide_ds_def wide_fs_def path_join_def Let_def)
  from 1 2 3 4 show ?thesis by blast
qed

section \<open>Collation\<close>

lemma cast_to_fits: "fits dt v \<Longrightarrow> cast_to dt v = v"
  by (cases dt) (simp_all add: fits_def cast_to_def)

lemma fits_256: "fits dt 256 \<longleftrightarrow> dt \<noteq> UInt8 \<and> dt \<noteq> Int8"
  by (cases dt) (simp_all add: fits_def)

lemma pad_loop_dtype: "b_dtype (pad_loop m i seqs out) = b_dtype out"
  by (induction seqs arbitrary: i out) (simp_all add: Let_def assign_row_def)

lemma pad_loop_length: "length (b_rows (pad_loop m i seqs out)) = length (b_rows out)"
  by (induction seqs arbitrary: i out) (simp_all add: Let_def assign_row_def)

lemma pad_loop_nth_other:
  "k < i \<or> i + length seqs \<le> k \<Longrightarrow> b_rows (pad_loop m i seqs out) ! k = b_rows out ! k"
  by (induction seqs arbitrary: i out) (auto simp add: Let_def assign_row_def)

lemma pad_loop_nth:
  "i + length seqs \<le> length (b_rows out) \<Longrightarrow> k < length seqs \<Longrightarrow>
   b_rows (pad_loop m i seqs out) ! (i + k) =
     (if m > length (t_data (seqs ! k))
      then map (cast_to (b_dtype out)) (t_data (seqs ! k))
             @ drop (length (t_data (seqs ! k))) (b_rows out ! (i + k))
      else map (cast_to (b_dtype out)) (take m (t_data (seqs ! k)))
             @ drop m (b_rows out ! (i + k)))"
proof (induction seqs arbitrary: i out k)
  case Nil
  then show ?case by simp
next
  case (Cons t rest)
  show ?case
  proof (cases k)
    case 0
    then show ?thesis using Cons.prems
      by (simp add: Let_def pad_loop_nth_other assign_row_def)
  next
    case (Suc k')
    then show ?thesis using Cons.prems Cons.IH [of "Suc i" _ k']
      by (simp add: Let_def assign_row_def)
  qed
qed

lemma pad_sequence_row:
  assumes "k < length seqs" and "fits (t_dtype (seqs ! 0)) pv"
  shows "\<exists>out. (pad_sequence seqs (Some m) pv :: 'e error + tensor2d) = Inr out
           \<and> b_dtype out = t_dtype (seqs ! 0) \<and> length (b_rows out) = length seqs
           \<and> b_rows out ! k =
               (if m > length (t_data (seqs ! k))
                then map (cast_to (t_dtype (seqs ! 0))) (t_data (seqs ! k))
                       @ replicate (m - length (t_data (seqs ! k))) pv
                else map (cast_to (t_dtype (seqs ! 0))) (take m (t_data (seqs ! k))))"
proof -
  from assms(1) have ne: "seqs \<noteq> []" by auto
  define out0 where "out0 = \<lparr>b_dtype = t_dtype (seqs ! 0),
                              b_rows = replicate (length seqs) (replicate m pv)\<rparr>"
  have row: "b_rows (pad_loop m 0 seqs out0) ! (0 + k) =
     (if m > length (t_data (seqs ! k))
      then map (cast_to (b_dtype out0)) (t_data (seqs ! k))
             @ drop (length (t_data (seqs ! k))) (b_rows out0 ! (0 + k))
      else map (cast_to (b_dtype out0)) (take m (t_data (seqs ! k)))
             @ drop m (b_rows out0 ! (0 + k)))"
    by (rule pad_loop_nth) (simp_all add: out0_def assms)
  have p: "(pad_sequence seqs (Some m) pv :: 'e error + tensor2d) = Inr (pad_loop m 0 seqs out0)"
    using ne assms(2) by (simp add: pad_sequence_def new_full_def out0_def)
  from row assms(1) have "b_rows (pad_loop m 0 seqs out0) ! k =
               (if m > length (t_data (seqs ! k))
                then map (cast_to (t_dtype (seqs ! 0))) (t_data (seqs ! k))
                       @ replicate (m - length (t_data (seqs ! k))) pv
                else map (cast_to (t_dtype (seqs ! 0))) (take m (t_data (seqs ! k))))"
    by (simp add: out0_def)
  moreover have "b_dtype (pad_loop m 0 seqs out0) = t_dtype (seqs ! 0)"
    by (simp add: pad_loop_dtype out0_def)
  moreover have "length (b_rows (pad_loop m 0 seqs out0)) = length seqs"
    by (simp add: pad_loop_length out0_def)
  ultimately show ?thesis using p by blast
qed

lemma pad_sequence_overflow:
  "seqs \<noteq> [] \<Longrightarrow> \<not> fits (t_dtype (seqs ! 0)) pv \<Longrightarrow>
     (pad_sequence seqs (Some m) pv :: 'e error + tensor2d) = Inl RuntimeError"
  by (simp add: pad_sequence_def new_full_def)

lemma collate_fn_overflow:
  assumes "batch \<noteq> []" and "\<not> fits (t_dtype (fst (batch ! 0))) 256"
  shows "(collate_fn batch :: 'e error + (tensor2d \<times> rat list)) = Inl RuntimeError"
proof -
  from assms(1) have z: "map fst batch ! 0 = fst (batch ! 0)" by (cases batch) simp_all
  from assms have "map fst batch \<noteq> []" and "\<not> fits (t_dtype (map fst batch ! 0)) 256"
    by (simp_all add: z)
  from pad_sequence_overflow [OF this, of 4096, where ?'e = 'e] show ?thesis
    by (simp add: collate_fn_def)
qed

lemma collate_fn_row:
  assumes "i < length batch" and "fits (t_dtype (fst (batch ! 0))) 256"
  shows "\<exists>xs. (collate_fn batch :: 'e error + (tensor2d \<times> rat list)) = Inr (xs, map snd batch)
           \<and> b_dtype xs = t_dtype (fst (batch ! 0)) \<and> length (b_rows xs) = length batch
           \<and> b_rows xs ! i =
               (if 4096 > length (t_data (fst (batch ! i)))
                then map (cast_to (t_dtype (fst (batch ! 0)))) (t_data (fst (batch ! i)))
                       @ replicate (4096 - length (t_data (fst (batch ! i)))) 256
                else map (cast_to (t_dtype (fst (batch ! 0)))) (take 4096 (t_data (fst (batch ! i)))))"
proof -
  from assms(1) have z: "map fst batch ! 0 = fst (batch ! 0)" by (cases batch) simp_all
  from assms have k: "i < length (map fst batch)" and f: "fits (t_dtype (map fst batch ! 0)) 256"
    by (simp_all add: z)
  from pad_sequence_row [OF k f, of 4096, where ?'e = 'e] assms(1) z
  obtain out where "(pad_sequence (map fst batch) (Some 4096) 256 :: 'e error + tensor2d) = Inr out"
    and "b_dtype out = t_dtype (fst (batch ! 0))" and "length (b_rows out) = length batch"
    and "b_rows out ! i =
               (if 4096 > length (t_data (fst (batch ! i)))
                then map (cast_to (t_dtype (fst (batch ! 0)))) (t_data (fst (batch ! i)))
                       @ replicate (4096 - length (t_data (fst (batch ! i)))) 256
                else map (cast_to (t_dtype (fst (batch ! 0)))) (take 4096 (t_data (fst (batch ! i)))))"
    by auto
  then show ?thesis by (simp add: collate_fn_def)
qed

text \<open>
  Claim C7, as stated: for every batch, the row of a sample shorter than 4096 is the
  sample followed by 256s. It fails on a batch whose first sample is a \<open>uint8\<close> tensor: the
  batch inherits that element type, 256 does not fit it, and collation raises.
\<close>

theorem collate_fn_pads_counterexample:
  "0 < length uint8_batch \<and> length (t_data (fst (uint8_batch ! 0))) < 4096
   \<and> (collate_fn uint8_batch :: unit error + (tensor2d \<times> rat list)) = Inl RuntimeError"
  by (simp add: uint8_batch_def uint8_tensor_def collate_fn_def pad_sequence_def new_full_def
        fits_def)

text \<open>
  Claim C7, amended. When the element type of the first sample holds 256 (\<open>int16\<close>,
  \<open>int32\<close>, \<open>int64\<close>), the row of a sample of length \<open>L < 4096\<close> has width 4096, starts
  with the \<open>L\<close> values of the sample converted to that type, which leaves them as they are
  whenever they fit it (byte values always do), and continues with \<open>4096 - L\<close> copies of
  256. (A sample of length 10: 4086 trailing 256s.) When the element type of the first
  sample does not hold 256 (\<open>uint8\<close>, \<open>int8\<close>), collation raises \<open>RuntimeError\<close>.
\<close>

theorem collate_fn_pads:
  assumes "i < length batch" and "length (t_data (fst (batch ! i))) < 4096"
  shows "(fits (t_dtype (fst (batch ! 0))) 256 \<longrightarrow>
           (\<exists>xs ys. (collate_fn batch :: 'e error + (tensor2d \<times> rat list)) = Inr (xs, ys)
              \<and> length (b_rows xs ! i) = 4096
              \<and> take (length (t_data (fst (batch ! i)))) (b_rows xs ! i)
                  = map (cast_to (t_dtype (fst (batch ! 0)))) (t_data (fst (batch ! i)))
              \<and> drop (length (t_data (fst (batch ! i)))) (b_rows xs ! i)
                  = replicate (4096 - length (t_data (fst (batch ! i)))) 256
              \<and> ((\<forall>v\<in>set (t_data (fst (batch ! i))). fits (t_dtype (fst (batch ! 0))) v) \<longrightarrow>
                   take (length (t_data (fst (batch ! i)))) (b_rows xs ! i)
                     = t_data (fst (batch ! i)))))
       \<and> (\<not> fits (t_dtype (fst (batch ! 0))) 256 \<longrightarrow>
            (collate_fn batch :: 'e error + (tensor2d \<times> rat list)) = Inl RuntimeError)"
proof (intro conjI impI)
  assume "\<not> fits (t_dtype (fst (batch ! 0))) 256"
  moreover from assms(1) have "batch \<noteq> []" by auto
  ultimately show "(collate_fn batch :: 'e error + (tensor2d \<times> rat list)) = Inl RuntimeError"
    by (rule collate_fn_overflow [rotated])
next
  let ?d = "t_data (fst (batch ! i))" and ?dt = "t_dtype (fst (batch ! 0))"
  assume "fits ?dt 256"
  from collate_fn_row [OF assms(1) this, where ?'e = 'e] assms(2)
  obtain xs where c: "(collate_fn batch :: 'e error + (tensor2d \<times> rat list)) = Inr (xs, map snd batch)"
    and row: "b_rows xs ! i = map (cast_to ?dt) ?d @ replicate (4096 - length ?d) 256"
    by auto
  have 1: "length (b_rows xs ! i) = 4096" using row assms(2) by simp
  have 2: "take (length ?d) (b_rows xs ! i) = map (cast_to ?dt) ?d" unfolding row by simp
  have 3: "drop (length ?d) (b_rows xs ! i) = replicate (4096 - length ?d) 256"
    unfolding row by simp
  have 4: "take (length ?d) (b_rows xs ! i) = ?d" if "\<forall>v\<in>set ?d. fits ?dt v"
  proof -
    from that have "map (cast_to ?dt) ?d = ?d" by (simp add: cast_to_fits map_idI)
    with 2 show ?thesis by simp
  qed
  from c 1 2 3 4 show "\<exists>xs ys. (collate_fn batch :: 'e error + (tensor2d \<times> rat list)) = Inr (xs, ys)
              \<and> length (b_rows xs ! i) = 4096
              \<and> take (length ?d) (b_rows xs ! i) = map (cast_to ?dt) ?d
              \<and> drop (length ?d) (b_rows xs ! i) = replicate (4096 - length ?d) 256
              \<and> ((\<forall>v\<in>set ?d. fits ?dt v) \<longrightarrow> take (length ?d) (b_rows xs ! i) = ?d)"
    by blast
qed

theorem collate_fn_pads_witness:
  "(\<exists>xs ys. (collate_fn demo_batch :: unit error + (tensor2d \<times> rat list)) = Inr (xs, ys)
           \<and> length (b_rows xs ! 0) = 4096
           \<and> take 10 (b_rows xs ! 0) = [1, 2, 3, 4, 5, 6, 7, 8, 9, 10]
           \<and> drop 10 (b_rows xs ! 0) = replicate 4086 256)
   \<and> (collate_fn int8_batch :: unit error + (tensor2d \<times> rat list)) = Inl RuntimeError"
proof -
  have h1: "0 < length demo_batch" by (simp add: demo_batch_def)
  have e1: "t_data (fst (demo_batch ! 0)) = [1, 2, 3, 4, 5, 6, 7, 8, 9, 10]"
    by (simp add: demo_batch_def int64_tensor_def)
  have h2: "length (t_data (fst (demo_batch ! 0))) < 4096" unfolding e1 by simp
  have f: "fits (t_dtype (fst (demo_batch ! 0))) 256"
    by (simp add: demo_batch_def int64_tensor_def fits_def)
  have a: "\<forall>v\<in>set (t_data (fst (demo_batch ! 0))). fits (t_dtype (fst (demo_batch ! 0))) v"
    unfolding e1 by (simp add: demo_batch_def int64_tensor_def fits_def)
  have e2: "length [1, 2, 3, 4, 5, 6, 7, 8, 9, 10 :: int] = 10" by simp
  have e3: "(4096 :: nat) - 10 = 4086" by simp
  from collate_fn_pads [OF h1 h2, where ?'e = unit] f a
  have 1: "\<exists>xs ys. (collate_fn demo_batch :: unit error + (tensor2d \<times> rat list)) = Inr (xs, ys)
           \<and> length (b_rows xs ! 0) = 4096
           \<and> take 10 (b_rows xs ! 0) = [1, 2, 3, 4, 5, 6, 7, 8, 9, 10]
           \<and> drop 10 (b_rows xs ! 0) = replicate 4086 256"
    unfolding e1 e2 e3 by blast
  have g1: "0 < length int8_batch" by (simp add: int8_batch_def)
  have g2: "length (t_data (fst (int8_batch ! 0))) < 4096" by (simp add: int8_batch_def)
  have nf: "\<not> fits (t_dtype (fst (int8_batch ! 0))) 256"
    by (simp add: int8_batch_def fits_def)
  from collate_fn_pads [OF g1 g2, where ?'e = unit] nf
  have 2: "(collate_fn int8_batch :: unit error + (tensor2d \<times> rat list)) = Inl RuntimeError"
    by blast
  from 1 2 show ?thesis by blast
qed

text \<open>
  Claim C8, as stated: for every batch, the row of a sample of length at least 4096 is
  its first 4096 values. It fails in the same way on a batch whose first sample is a
  \<open>uint8\<close> tensor: collation raises before any row is written.
\<close>

theorem collate_fn_truncates_counterexample:
  "0 < length uint8_long_batch \<and> 4096 \<le> length (t_data (fst (uint8_long_batch ! 0)))
   \<and> (collate_fn uint8_long_batch :: unit error + (tensor2d \<times> rat list)) = Inl RuntimeError"
  by (simp add: uint8_long_batch_def uint8_tensor_def collate_fn_def pad_sequence_def new_full_def
        fits_def)

text \<open>
  Claim C8, amended. When the element type of the first sample holds 256, the row of a
  sample of length \<open>L \<ge> 4096\<close> has width 4096 and is the first 4096 values of the sample
  converted to that type; when these values fit it, the row is exactly the first 4096
  values of the sample, so every value of the row is a value of the sample and no padding
  is added. When the element type of the first sample does not hold 256, collation raises
  \<open>RuntimeError\<close>.
\<close>

theorem collate_fn_truncates:
  assumes "i < length batch" and "4096 \<le> length (t_data (fst (batch ! i)))"
  shows "(fits (t_dtype (fst (batch ! 0))) 256 \<longrightarrow>
           (\<exists>xs ys. (collate_fn batch :: 'e error + (tensor2d \<times> rat list)) = Inr (xs, ys)
              \<and> length (b_rows xs ! i) = 4096
              \<and> b_rows xs ! i
                  = map (cast_to (t_dtype (fst (batch ! 0)))) (take 4096 (t_data (fst (batch ! i))))
              \<and> ((\<forall>v\<in>set (take 4096 (t_data (fst (batch ! i)))). fits (t_dtype (fst (batch ! 0))) v) \<longrightarrow>
                   b_rows xs ! i = take 4096 (t_data (fst (batch ! i)))
                 \<and> set (b_rows xs ! i) \<subseteq> set (t_data (fst (batch ! i))))))
       \<and> (\<not> fits (t_dtype (fst (batch ! 0))) 256 \<longrightarrow>
            (collate_fn batch :: 'e error + (tensor2d \<times> rat list)) = Inl RuntimeError)"
proof (intro conjI impI)
  assume "\<not> fits (t_dtype (fst (batch ! 0))) 256"
  moreover from assms(1) have "batch \<noteq> []" by auto
  ultimately show "(collate_fn batch :: 'e error + (tensor2d \<times> rat list)) = Inl RuntimeError"
    by (rule collate_fn_overflow [rotated])
next
  let ?d = "t_data (fst (batch ! i))" and ?dt = "t_dtype (fst (batch ! 0))"
  assume "fits ?dt 256"
  from collate_fn_row [OF assms(1) this, where ?'e = 'e] assms(2)
  obtain xs where c: "(collate_fn batch :: 'e error + (tensor2d \<times> rat list)) = Inr (xs, map snd batch)"
    and row: "b_rows xs ! i = map (cast_to ?dt) (take 4096 ?d)"
    by auto
  have 1: "length (b_rows xs ! i) = 4096" using row assms(2) by simp
  have 2: "b_rows xs ! i = take 4096 ?d \<and> set (b_rows xs ! i) \<subseteq> set ?d"
    if "\<forall>v\<in>set (take 4096 ?d). fits ?dt v"
  proof -
    from that have "map (cast_to ?dt) (take 4096 ?d) = take 4096 ?d"
      by (simp add: cast_to_fits map_idI)
    with row have "b_rows xs ! i = take 4096 ?d" by simp
    then show ?thesis by (simp add: set_take_subset)
  qed
  from c 1 row 2 show "\<exists>xs ys. (collate_fn batch :: 'e error + (tensor2d \<times> rat list)) = Inr (xs, ys)
              \<and> length (b_rows xs ! i) = 4096
              \<and> b_rows xs ! i = map (cast_to ?dt) (take 4096 ?d)
              \<and> ((\<forall>v\<in>set (take 4096 ?d). fits ?dt v) \<longrightarrow>
                   b_rows xs ! i = take 4096 ?d \<and> set (b_rows xs ! i) \<subseteq> set ?d)"
    by blast
qed

theorem collate_fn_truncates_witness:
  "(\<exists>xs ys. (collate_fn long_batch :: unit error + (tensor2d \<times> rat list)) = Inr (xs, ys)
           \<and> length (b_rows xs ! 1) = 4096
           \<and> b_rows xs ! 1 = take 4096 (replicate 5000 255)
           \<and> set (b_rows xs ! 1) \<subseteq> set (replicate 5000 255))
   \<and> (collate_fn uint8_long_batch :: unit error + (tensor2d \<times> rat list)) = Inl RuntimeError"
proof -
  have h1: "1 < length long_batch" by (simp add: long_batch_def)
  have e: "t_data (fst (long_batch ! 1)) = replicate 5000 255"
    by (simp add: long_batch_def uint8_tensor_def)
  have h2: "4096 \<le> length (t_data (fst (long_batch ! 1)))" unfolding e by simp
  have f: "fits (t_dtype (fst (long_batch ! 0))) 256"
    by (simp add: long_batch_def int64_tensor_def fits_def)
  have a: "\<forall>v\<in>set (take 4096 (t_data (fst (long_batch ! 1)))). fits (t_dtype (fst (long_batch ! 0))) v"
    unfolding e by (simp add: long_batch_def int64_tensor_def fits_def)
  from collate_fn_truncates [OF h1 h2, where ?'e = unit] f a
  have 1: "\<exists>xs ys. (collate_fn long_batch :: unit error + (tensor2d \<times> rat list)) = Inr (xs, ys)
           \<and> length (b_rows xs ! 1) = 4096
           \<and> b_rows xs ! 1 = take 4096 (replicate 5000 255)
           \<and> set (b_rows xs ! 1) \<subseteq> set (replicate 5000 255)"
    unfolding e by blast
  have g1: "0 < length uint8_long_batch" by (simp add: uint8_long_batch_def)
  have g2: "4096 \<le> length (t_data (fst (uint8_long_batch ! 0)))"
    by (simp add: uint8_long_batch_def uint8_tensor_def)
  have nf: "\<not> fits (t_dtype (fst (uint8_long_batch ! 0))) 256"
    by (simp add: uint8_long_batch_def uint8_tensor_def fits_def)
  from collate_fn_truncates [OF g1 g2, where ?'e = unit] nf
  have 2: "(collate_fn uint8_long_batch :: unit error + (tensor2d \<times> rat list)) = Inl RuntimeError"
    by blast
  from 1 2 show ?thesis by blast
qed

text \<open>
  Claim C10. On the empty batch collation fails: \<open>pad_sequence\<close> reads the first element
  of an empty list (\<open>IndexError\<close>; with no \<open>max_len\<close> given, \<open>max\<close> of an empty list fails
  first). \<open>collate_fn\<close> returns a batch only for non-empty batches: exactly for those whose
  first sample has an element type that holds 256.
\<close>

theorem collate_fn_empty:
  "(collate_fn [] :: 'e error + (tensor2d \<times> rat list)) = Inl IndexError
   \<and> (pad_sequence [] (Some m) pv :: 'e error + tensor2d) = Inl IndexError
   \<and> (pad_sequence [] None pv :: 'e error + tensor2d) = Inl ValueError_max_empty
   \<and> ((\<exists>r. (collate_fn batch :: 'e error + (tensor2d \<times> rat list)) = Inr r)
        \<longleftrightarrow> batch \<noteq> [] \<and> fits (t_dtype (fst (batch ! 0))) 256)"
proof (intro conjI)
  show "(collate_fn [] :: 'e error + (tensor2d \<times> rat list)) = Inl IndexError"
    by (simp add: collate_fn_def pad_sequence_def)
  show "(pad_sequence [] (Some m) pv :: 'e error + tensor2d) = Inl IndexError"
    by (simp add: pad_sequence_def)
  show "(pad_sequence [] None pv :: 'e error + tensor2d) = Inl ValueError_max_empty"
    by (simp add: pad_sequence_def)
  show "(\<exists>r. (collate_fn batch :: 'e error + (tensor2d \<times> rat list)) = Inr r)
        \<longleftrightarrow> batch \<noteq> [] \<and> fits (t_dtype (fst (batch ! 0))) 256"
  proof (cases "batch = []")
    case True
    then show ?thesis by (simp add: collate_fn_def pad_sequence_def)
  next
    case False
    then have p: "0 < length batch" by simp
    show ?thesis
    proof (cases "fits (t_dtype (fst (batch ! 0))) 256")
      case True
      from collate_fn_row [OF p True, where ?'e = 'e] False True show ?thesis by blast
    next
      case nf: False
      from collate_fn_overflow [OF False nf, where ?'e = 'e] False nf show ?thesis by simp
    qed
  qed
qed

section \<open>The splitter\<close>

subsection \<open>What a returning split went through\<close>

lemma then_do_returns:
  "then_do m f w = (Inr y, w') \<Longrightarrow> \<exists>x w1. m w = (Inr x, w1) \<and> f x w1 = (Inr y, w')"
  by (auto simp add: then_do_def split: prod.splits sum.splits)

lemma train_val_test_split_returns:
  assumes "train_val_test_split tts idx v t sh w = (Inr (tr, va, te), w')"
  shows "\<exists>tv g2 g3. tts (rng w) idx t sh = Inr ((tv, te), g2) \<and> tts g2 tv v sh = Inr ((tr, va), g3)"
  using assms
  by (auto simp add: train_val_test_split_def then_do_def return_val_def train_test_split_def
        log_event_def split: sum.splits prod.splits)

lemma train_val_test_split_mset:
  assumes "split_partitions tts" and "train_val_test_split tts idx v t sh w = (Inr (tr, va, te), w')"
  shows "mset tr + mset va + mset te = mset idx"
proof -
  from train_val_test_split_returns [OF assms(2)] obtain tv g1 g2 g3 where
    a: "tts g1 idx t sh = Inr ((tv, te), g2)" and b: "tts g2 tv v sh = Inr ((tr, va), g3)"
    by blast
  from assms(1) a have "mset tv + mset te = mset idx" unfolding split_partitions_def by blast
  moreover from assms(1) b have "mset tr + mset va = mset tv" unfolding split_partitions_def by blast
  ultimately show ?thesis by simp
qed

lemma train_val_test_split_test_size:
  assumes "split_holds_out tts"
    and "train_val_test_split tts idx v (PyFloat f) sh w = (Inr (tr, va, te), w')"
  shows "length te = nat \<lceil>f * of_nat (length idx)\<rceil>"
proof -
  from train_val_test_split_returns [OF assms(2)] obtain tv g1 g2 where
    "tts g1 idx (PyFloat f) sh = Inr ((tv, te), g2)" by blast
  with assms(1) show ?thesis unfolding split_holds_out_def by blast
qed

lemma train_val_test_split_test_subset:
  assumes "split_partitions tts"
    and "train_val_test_split tts idx v t sh w = (Inr (tr, va, te), w')"
  shows "set te \<subseteq> set idx"
proof -
  from train_val_test_split_mset [OF assms] have "mset te \<subseteq># mset idx"
    by (metis mset_subset_eq_add_right)
  then have "set_mset (mset te) \<subseteq> set_mset (mset idx)" by (rule set_mset_mono)
  then show ?thesis by simp
qed

lemma make_idx_returns:
  assumes "make_idx tts ds v t w = (Inr (tr, va, te), w')"
  shows "\<exists>btr bva bte mtr mva mte w1.
           train_val_test_split tts (py_range 0 (length (benign_files ds))) v t True w
             = (Inr (btr, bva, bte), w1)
         \<and> train_val_test_split tts
             (py_range (length (benign_files ds)) (length (benign_files ds) + length (malware_files ds)))
             v t True w1 = (Inr (mtr, mva, mte), w')
         \<and> tr = btr @ mtr \<and> va = bva @ mva \<and> te = bte @ mte"
  using assms
  by (auto simp add: make_idx_def Let_def then_do_def return_val_def split: sum.splits prod.splits)

lemma py_range_append: "a \<le> b \<Longrightarrow> b \<le> c \<Longrightarrow> py_range a b @ py_range b c = py_range a c"
  unfolding py_range_def by (metis map_append upt_add_eq_append le_Suc_ex)

lemma distinct_py_range: "distinct (py_range a b)"
  by (simp add: py_range_def distinct_map)

lemma set_py_range: "set (py_range a b) = int ` {a..<b}"
  by (simp add: py_range_def)

subsection \<open>The instance meets what is asked of the primitive\<close>

lemma mset_rotate1_eq: "mset (rotate1 xs) = mset xs"
  by (cases xs) simp_all

lemma mset_rotate_eq: "mset (rotate n xs) = mset xs"
  by (induction n) (simp_all add: mset_rotate1_eq)

lemma mset_drop_take: "mset (drop k xs) + mset (take k xs) = mset xs"
proof -
  have "mset (take k xs @ drop k xs) = mset xs" by (simp only: append_take_drop_id)
  then show ?thesis by (simp only: mset_append add.commute)
qed

lemma sk_split_partitions: "split_partitions sk_split"
  unfolding split_partitions_def
proof (intro allI impI)
  fix g idx sz sh a b g'
  assume r: "sk_split g idx sz sh = Inr ((a, b), g')"
  then obtain k where k: "sk_n_test (length idx) sz = Inr k"
    by (cases "sk_n_test (length idx) sz") (simp_all add: sk_split_def)
  define p where "p = rotate (Suc g) idx"
  have p: "mset p = mset idx" unfolding p_def by (rule mset_rotate_eq)
  show "mset a + mset b = mset idx"
  proof (cases sh)
    case True
    with r k have "a = drop k p" and "b = take k p"
      unfolding p_def by (auto simp add: sk_split_def Let_def simp del: rotate_Suc split: if_splits)
    then show ?thesis using mset_drop_take [of k p] p by simp
  next
    case False
    with r k have "a = take (length idx - k) idx" and "b = drop (length idx - k) idx"
      by (auto simp add: sk_split_def Let_def split: if_splits)
    then show ?thesis using mset_drop_take [of "length idx - k" idx] by (simp add: add.commute)
  qed
qed

lemma sk_split_holds_out: "split_holds_out sk_split"
  unfolding split_holds_out_def
proof (intro allI impI)
  fix g idx f sh a b g'
  assume r: "sk_split g idx (PyFloat f) sh = Inr ((a, b), g')"
  let ?k = "nat \<lceil>f * of_nat (length idx)\<rceil>"
  from r have k: "sk_n_test (length idx) (PyFloat f) = Inr ?k"
    by (simp add: sk_split_def Let_def split: if_splits)
  from r k have lt: "?k < length idx"
    by (simp add: sk_split_def Let_def split: if_splits)
  show "length b = ?k"
  proof (cases sh)
    case True
    with r k have "b = take ?k (rotate (Suc g) idx)"
      by (auto simp add: sk_split_def Let_def simp del: rotate_Suc split: if_splits)
    with lt show ?thesis by (simp del: rotate_Suc)
  next
    case False
    with r k have "b = drop (length idx - ?k) idx"
      by (auto simp add: sk_split_def Let_def split: if_splits)
    with lt show ?thesis by simp
  qed
qed


subsection \<open>Partition\<close>

text \<open>
  Claim C4. Whenever \<open>make_idx\<close> returns, over a split primitive that hands back its input
  in two parts, the lengths of \<open>train_idx\<close>, \<open>val_idx\<close> and \<open>test_idx\<close> add up to the number
  of indices, the three are pairwise disjoint, and together they are the index range
  \<open>[0, B + M)\<close>. The fractions are not constrained: the statement holds for all of them,
  those with \<open>v + t < 1\<close> included.
\<close>

theorem make_idx_partition:
  assumes "split_partitions tts" and "make_idx tts ds v t w = (Inr (tr, va, te), w')"
  shows "length tr + length va + length te = length (benign_files ds) + length (malware_files ds)
       \<and> set tr \<inter> set va = {} \<and> set tr \<inter> set te = {} \<and> set va \<inter> set te = {}
       \<and> set tr \<union> set va \<union> set te = int ` {0..<len ds}
       \<and> distinct (tr @ va @ te)"
proof -
  let ?B = "length (benign_files ds)" and ?M = "length (malware_files ds)"
  from make_idx_returns [OF assms(2)] obtain btr bva bte mtr mva mte w1 where
    b: "train_val_test_split tts (py_range 0 ?B) v t True w = (Inr (btr, bva, bte), w1)" and
    m: "train_val_test_split tts (py_range ?B (?B + ?M)) v t True w1 = (Inr (mtr, mva, mte), w')" and
    eq: "tr = btr @ mtr" "va = bva @ mva" "te = bte @ mte"
    by blast
  from train_val_test_split_mset [OF assms(1) b]
  have mb: "mset btr + mset bva + mset bte = mset (py_range 0 ?B)" .
  from train_val_test_split_mset [OF assms(1) m]
  have mm: "mset mtr + mset mva + mset mte = mset (py_range ?B (?B + ?M))" .
  have "mset (tr @ va @ te) = (mset btr + mset bva + mset bte) + (mset mtr + mset mva + mset mte)"
    by (simp add: eq)
  also have "\<dots> = mset (py_range 0 ?B @ py_range ?B (?B + ?M))"
    by (simp add: mb mm)
  also have "\<dots> = mset (py_range 0 (len ds))"
    by (simp add: py_range_append len_def)
  finally have ms: "mset (tr @ va @ te) = mset (py_range 0 (len ds))" .
  from ms have d: "distinct (tr @ va @ te)"
    using distinct_py_range mset_eq_imp_distinct_iff by blast
  from ms have "length (tr @ va @ te) = length (py_range 0 (len ds))"
    by (rule mset_eq_length)
  then have l: "length tr + length va + length te = ?B + ?M"
    by (simp add: py_range_def len_def)
  from ms have "set (tr @ va @ te) = set (py_range 0 (len ds))"
    by (rule mset_eq_setD)
  then have s: "set tr \<union> set va \<union> set te = int ` {0..<len ds}"
    by (simp add: set_py_range Un_assoc)
  from d have "set tr \<inter> set va = {}" "set tr \<inter> set te = {}" "set va \<inter> set te = {}"
    by auto
  with l s d show ?thesis by blast
qed

theorem make_idx_partition_witness:
  "fst (make_idx sk_split split_ds (PyFloat (1 / 4)) (PyFloat (1 / 4)) world0)
     = Inr ([2, 3, 6, 4], [0, 5], [1, 7])
   \<and> length [2, 3, 6, 4 :: int] + length [0, 5 :: int] + length [1, 7 :: int]
       = length (benign_files split_ds) + length (malware_files split_ds)
   \<and> set [2, 3, 6, 4 :: int] \<inter> set [0, 5] = {}
   \<and> set [2, 3, 6, 4 :: int] \<inter> set [1, 7] = {}
   \<and> set [0, 5 :: int] \<inter> set [1, 7] = {}
   \<and> set [2, 3, 6, 4 :: int] \<union> set [0, 5] \<union> set [1, 7] = int ` {0..<len split_ds}
   \<and> distinct ([2, 3, 6, 4 :: int] @ [0, 5] @ [1, 7])"
proof -
  have e: "make_idx sk_split split_ds (PyFloat (1 / 4)) (PyFloat (1 / 4)) world0
      = (Inr ([2, 3, 6, 4], [0, 5], [1, 7]),
         \<lparr>rng = 4, trace = [SplitCall [0, 1, 2, 3] (PyFloat (1 / 4)) True,
                             SplitCall [2, 3, 0] (PyFloat (1 / 4)) True,
                             SplitCall [4, 5, 6, 7] (PyFloat (1 / 4)) True,
                             SplitCall [4, 5, 6] (PyFloat (1 / 4)) True]\<rparr>)"
    by code_simp
  from make_idx_partition [OF sk_split_partitions e] e show ?thesis
    by (simp only: fst_conv simp_thms)
qed

subsection \<open>Stratification\<close>

lemma ceiling_share:
  fixes x :: rat
  assumes "0 \<le> x"
  shows "\<bar>of_nat (nat \<lceil>x\<rceil>) - x\<bar> < 1"
proof -
  from assms have "0 \<le> \<lceil>x\<rceil>" by simp
  then have "(of_nat (nat \<lceil>x\<rceil>) :: rat) = of_int \<lceil>x\<rceil>" by simp
  moreover have "x \<le> of_int \<lceil>x\<rceil>" by (rule le_of_int_ceiling)
  moreover have "of_int \<lceil>x\<rceil> < x + 1" by linarith
  ultimately show ?thesis by simp
qed

text \<open>
  Claim C5. Over a primitive that holds out the fraction rounded up, \<open>test_idx\<close> has
  \<open>\<lceil>t * B\<rceil>\<close> indices below \<open>B\<close> (benign origin) and \<open>\<lceil>t * M\<rceil>\<close> indices from \<open>B\<close> on
  (malware origin), whatever the validation fraction: each class is represented within one
  index of its share. For 100 benign and 100 malware files and \<open>t = 0.2\<close> that is exactly 20
  and 20. The size rule is stated in exact arithmetic; the product \<open>0.2 * 100\<close> is the same
  in floating point.
\<close>

theorem make_idx_stratified:
  assumes "split_partitions tts" and "split_holds_out tts"
    and "make_idx tts ds v (PyFloat t) w = (Inr (tr, va, te), w')"
  shows "length (filter (\<lambda>i. i < int (length (benign_files ds))) te)
           = nat \<lceil>t * of_nat (length (benign_files ds))\<rceil>
       \<and> length (filter (\<lambda>i. int (length (benign_files ds)) \<le> i) te)
           = nat \<lceil>t * of_nat (length (malware_files ds))\<rceil>
       \<and> (0 \<le> t \<longrightarrow>
            \<bar>of_nat (length (filter (\<lambda>i. i < int (length (benign_files ds))) te))
               - t * of_nat (length (benign_files ds))\<bar> < 1
          \<and> \<bar>of_nat (length (filter (\<lambda>i. int (length (benign_files ds)) \<le> i) te))
               - t * of_nat (length (malware_files ds))\<bar> < 1)
       \<and> (length (benign_files ds) = 100 \<and> length (malware_files ds) = 100 \<and> t = 1 / 5 \<longrightarrow>
            length (filter (\<lambda>i. i < 100) te) = 20 \<and> length (filter (\<lambda>i. 100 \<le> i) te) = 20)"
proof -
  let ?B = "length (benign_files ds)" and ?M = "length (malware_files ds)"
  from make_idx_returns [OF assms(3)] obtain btr bva bte mtr mva mte w1 where
    b: "train_val_test_split tts (py_range 0 ?B) v (PyFloat t) True w = (Inr (btr, bva, bte), w1)" and
    m: "train_val_test_split tts (py_range ?B (?B + ?M)) v (PyFloat t) True w1
          = (Inr (mtr, mva, mte), w')" and
    te: "te = bte @ mte"
    by blast
  from train_val_test_split_test_subset [OF assms(1) b]
  have sb: "\<forall>i\<in>set bte. i < int ?B" by (auto simp add: set_py_range)
  from train_val_test_split_test_subset [OF assms(1) m]
  have sm: "\<forall>i\<in>set mte. int ?B \<le> i" by (auto simp add: set_py_range)
  have fb: "filter (\<lambda>i. i < int ?B) te = bte"
    unfolding te using sb sm by (auto simp add: filter_empty_conv)
  have fm: "filter (\<lambda>i. int ?B \<le> i) te = mte"
    unfolding te using sb sm by (auto simp add: filter_empty_conv)
  from train_val_test_split_test_size [OF assms(2) b]
  have lb: "length bte = nat \<lceil>t * of_nat ?B\<rceil>" by (simp add: py_range_def)
  from train_val_test_split_test_size [OF assms(2) m]
  have lm: "length mte = nat \<lceil>t * of_nat ?M\<rceil>" by (simp add: py_range_def)
  have gen: "length (filter (\<lambda>i. i < int ?B) te) = nat \<lceil>t * of_nat ?B\<rceil>"
            "length (filter (\<lambda>i. int ?B \<le> i) te) = nat \<lceil>t * of_nat ?M\<rceil>"
    by (simp_all add: fb fm lb lm)
  have tol: "\<bar>of_nat (length (filter (\<lambda>i. i < int ?B) te)) - t * of_nat ?B\<bar> < 1
           \<and> \<bar>of_nat (length (filter (\<lambda>i. int ?B \<le> i) te)) - t * of_nat ?M\<bar> < 1"
    if "0 \<le> t"
  proof -
    from that have "0 \<le> t * of_nat ?B" and "0 \<le> t * of_nat ?M" by simp_all
    from ceiling_share [OF this(1)] ceiling_share [OF this(2)] show ?thesis
      by (simp only: gen)
  qed
  have "length (filter (\<lambda>i. i < 100) te) = 20 \<and> length (filter (\<lambda>i. 100 \<le> i) te) = 20"
    if h: "?B = 100 \<and> ?M = 100 \<and> t = 1 / 5"
    using gen by (simp add: h)
  with gen tol show ?thesis by blast
qed

theorem make_idx_stratified_witness:
  "\<exists>tr va te w'.
     make_idx sk_split ds100 (PyFloat (1 / 10)) (PyFloat (1 / 5)) world0 = (Inr (tr, va, te), w')
     \<and> length (filter (\<lambda>i. i < 100) te) = 20 \<and> length (filter (\<lambda>i. 100 \<le> i) te) = 20
     \<and> \<bar>of_nat (length (filter (\<lambda>i. i < int (length (benign_files ds100))) te))
          - 1 / 5 * of_nat (length (benign_files ds100))\<bar> < (1 :: rat)
     \<and> \<bar>of_nat (length (filter (\<lambda>i. int (length (benign_files ds100)) \<le> i) te))
          - 1 / 5 * of_nat (length (malware_files ds100))\<bar> < (1 :: rat)"
proof -
  have "\<not> isl (fst (make_idx sk_split ds100 (PyFloat (1 / 10)) (PyFloat (1 / 5)) world0))"
    by code_simp
  then obtain tr va te w' where
    e: "make_idx sk_split ds100 (PyFloat (1 / 10)) (PyFloat (1 / 5)) world0 = (Inr (tr, va, te), w')"
    by (cases "make_idx sk_split ds100 (PyFloat (1 / 10)) (PyFloat (1 / 5)) world0";
        cases "fst (make_idx sk_split ds100 (PyFloat (1 / 10)) (PyFloat (1 / 5)) world0)")
       auto
  have l: "length (benign_files ds100) = 100 \<and> length (malware_files ds100) = 100
           \<and> (1 / 5 :: rat) = 1 / 5"
    by (simp add: ds100_def numbered_files_def)
  have p: "(0 :: rat) \<le> 1 / 5" by simp
  from make_idx_stratified [OF sk_split_partitions sk_split_holds_out e] l p
  have "length (filter (\<lambda>i. i < 100) te) = 20 \<and> length (filter (\<lambda>i. 100 \<le> i) te) = 20
     \<and> \<bar>of_nat (length (filter (\<lambda>i. i < int (length (benign_files ds100))) te))
          - 1 / 5 * of_nat (length (benign_files ds100))\<bar> < (1 :: rat)
     \<and> \<bar>of_nat (length (filter (\<lambda>i. int (length (benign_files ds100)) \<le> i) te))
          - 1 / 5 * of_nat (length (malware_files ds100))\<bar> < (1 :: rat)"
    by blast
  with e show ?thesis by blast
qed

subsection \<open>Reproducibility\<close>












section \<open>The loaders\<close>














text \<open>
  What \<open>make_loaders\<close> returns, when it returns: the train and test loaders share the
  dataset listed from the two directories given, with the index lists \<open>make_idx\<close> computed
  for it; the validation loader pairs the validation indices of that dataset with the
  dataset listed from the two directories named in the source.
\<close>

lemma MalwareDataset_init_dirs:
  "MalwareDataset_init fs bdir mdir w = (Inr ds, w') \<Longrightarrow>
     benign_dir ds = bdir \<and> malware_dir ds = mdir"
  by (auto simp add: MalwareDataset_init_def os_listdir_def then_do_def return_val_def
        split: option.splits)

lemma make_loader_returns:
  "make_loader chk dataset batch_size shuffle w = (Inr loader, w') \<Longrightarrow>
     loader = \<lparr>dl_dataset = dataset, dl_batch_size = batch_size, dl_shuffle = shuffle\<rparr>"
  by (auto simp add: make_loader_def raise_exc_def return_val_def split: option.splits)

lemma make_loaders_returns:
  assumes "make_loaders fs tts chk bdir mdir batch_size val_size test_size w
             = (Inr (train_loader, val_loader, test_loader), w')"
  shows "benign_dir (sub_dataset (dl_dataset val_loader)) = testing_benign_dir
       \<and> malware_dir (sub_dataset (dl_dataset val_loader)) = testing_malware_dir
       \<and> benign_dir (sub_dataset (dl_dataset train_loader)) = bdir
       \<and> malware_dir (sub_dataset (dl_dataset train_loader)) = mdir
       \<and> sub_dataset (dl_dataset test_loader) = sub_dataset (dl_dataset train_loader)
       \<and> (\<exists>w1 w2. make_idx tts (sub_dataset (dl_dataset train_loader)) val_size test_size w1
              = (Inr (sub_indices (dl_dataset train_loader),
                      sub_indices (dl_dataset val_loader),
                      sub_indices (dl_dataset test_loader)), w2))"
proof -
  from assms have lt: "\<not> 1 \<le> num_val (py_add val_size test_size)"
    by (auto simp add: make_loaders_def Let_def raise_exc_def)
  with assms show ?thesis
    apply (auto simp add: make_loaders_def Let_def return_val_def
             dest!: then_do_returns make_loader_returns)
         apply (auto dest: MalwareDataset_init_dirs)
    done
qed

text \<open>
  Claim C1 says that the validation loader is the primary dataset restricted to its
  \<open>val_idx\<close>. On \<open>loaders_fs\<close> the train and test loaders are that, but the validation loader
  is built on the other dataset, with the primary dataset's validation indices \<open>[0, 5]\<close>;
  that dataset has four files, so reading index 5 through it raises \<open>IndexError\<close>.
\<close>

theorem make_loaders_val_loader_not_primary:
  "fst (make_loaders loaders_fs sk_split torch_loader_check ''b'' ''m'' 2
          (PyFloat (1 / 4)) (PyFloat (1 / 4)) world0)
     = Inr (\<lparr>dl_dataset = \<lparr>sub_dataset = split_ds, sub_indices = [2, 3, 6, 4]\<rparr>,
              dl_batch_size = 2, dl_shuffle = True\<rparr>,
            \<lparr>dl_dataset = \<lparr>sub_dataset = testing_ds, sub_indices = [0, 5]\<rparr>,
              dl_batch_size = 2, dl_shuffle = False\<rparr>,
            \<lparr>dl_dataset = \<lparr>sub_dataset = split_ds, sub_indices = [1, 7]\<rparr>,
              dl_batch_size = 2, dl_shuffle = False\<rparr>)
   \<and> testing_ds \<noteq> split_ds
   \<and> (getitem loaders_fs testing_ds 5 :: lib_error error + (sample \<times> rat)) = Inl IndexError"
proof (intro conjI)
  show "fst (make_loaders loaders_fs sk_split torch_loader_check ''b'' ''m'' 2
          (PyFloat (1 / 4)) (PyFloat (1 / 4)) world0)
     = Inr (\<lparr>dl_dataset = \<lparr>sub_dataset = split_ds, sub_indices = [2, 3, 6, 4]\<rparr>,
              dl_batch_size = 2, dl_shuffle = True\<rparr>,
            \<lparr>dl_dataset = \<lparr>sub_dataset = testing_ds, sub_indices = [0, 5]\<rparr>,
              dl_batch_size = 2, dl_shuffle = False\<rparr>,
            \<lparr>dl_dataset = \<lparr>sub_dataset = split_ds, sub_indices = [1, 7]\<rparr>,
              dl_batch_size = 2, dl_shuffle = False\<rparr>)"
    by code_simp
  show "testing_ds \<noteq> split_ds" by code_simp
  show "(getitem loaders_fs testing_ds 5 :: lib_error error + (sample \<times> rat)) = Inl IndexError"
    by code_simp
qed

end
